theory Spec2Isabelle
  imports Main
begin

section \<open>Profile credential store of the Stripe command-line tool\<close>

text \<open>
  The embedding follows the Go file of package \<open>config\<close> that defines \<open>Profile\<close>:
  the getters (\<open>GetColor\<close>, \<open>GetDeviceName\<close>, \<open>GetAPIKey\<close>), the field operations
  (\<open>GetConfigField\<close>, \<open>RegisterAlias\<close>, \<open>WriteConfigField\<close>, \<open>DeleteConfigField\<close>) and
  the writer (\<open>writeProfile\<close>, \<open>safeRemove\<close>). Go strings are byte strings, here
  \<^typ>\<open>string\<close>; the empty string plays the role it has in Go (unset).
\<close>

subsection \<open>Errors\<close>

datatype error =
    ErrDeviceNameNotConfigured
  | ErrAccountIDNotConfigured
  | ErrAPIKeyNotConfigured
  | ErrColorNotSupported string
  | ErrConfigFileNotFound
  | ErrUnsupportedConfig string
  | ErrKeyNotFound string
  | ErrOther string

subsection \<open>The profile\<close>

record Profile =
  DeviceName :: string
  ProfileName :: string
  APIKey :: string
  LiveModeAPIKey :: string
  LiveModePublishableKey :: string
  TestModeAPIKey :: string
  TestModePublishableKey :: string
  TerminalPOSDeviceID :: string
  DisplayName :: string
  AccountID :: string

definition AccountIDName :: string where "AccountIDName = ''account_id''"
definition DeviceNameName :: string where "DeviceNameName = ''device_name''"
definition DisplayNameName :: string where "DisplayNameName = ''display_name''"
definition TestModeAPIKeyName :: string where "TestModeAPIKeyName = ''test_mode_api_key''"
definition TestModePublishableKeyName :: string where
  "TestModePublishableKeyName = ''test_mode_publishable_key''"
definition TestModeExpiresAtName :: string where
  "TestModeExpiresAtName = ''test_mode_key_expires_at''"
definition LiveModeAPIKeyName :: string where "LiveModeAPIKeyName = ''live_mode_api_key''"
definition LiveModePublishableKeyName :: string where
  "LiveModePublishableKeyName = ''live_mode_publishable_key''"
definition LiveModeExpiresAtName :: string where
  "LiveModeExpiresAtName = ''live_mode_key_expires_at''"

text \<open>\<open>GetConfigField\<close>: the configuration field for the specific profile.\<close>

definition GetConfigField :: "Profile \<Rightarrow> string \<Rightarrow> string" where
  "GetConfigField p field = ProfileName p @ ''.'' @ field"

subsection \<open>Whitespace trimming\<close>

text \<open>
  \<open>strings.TrimSpace\<close> removes the leading and the trailing white space of a string, as
  \<open>unicode.IsSpace\<close> defines it. A Go string is a sequence of bytes read as UTF-8, so the
  white-space characters are given by their encodings: U+0009 to U+000D, U+0020, U+0085,
  U+00A0, U+1680, U+2000 to U+200A, U+2028, U+2029, U+202F, U+205F and U+3000. A byte
  that starts no such encoding, be it part of another character or invalid, ends the
  trimming.
\<close>

definition spaceRunes :: "string list" where
  "spaceRunes =
     [[CHR 0x09], [CHR 0x0A], [CHR 0x0B], [CHR 0x0C], [CHR 0x0D], [CHR 0x20],
      [CHR 0xC2, CHR 0x85], [CHR 0xC2, CHR 0xA0],
      [CHR 0xE1, CHR 0x9A, CHR 0x80],
      [CHR 0xE2, CHR 0x80, CHR 0x80], [CHR 0xE2, CHR 0x80, CHR 0x81],
      [CHR 0xE2, CHR 0x80, CHR 0x82], [CHR 0xE2, CHR 0x80, CHR 0x83],
      [CHR 0xE2, CHR 0x80, CHR 0x84], [CHR 0xE2, CHR 0x80, CHR 0x85],
      [CHR 0xE2, CHR 0x80, CHR 0x86], [CHR 0xE2, CHR 0x80, CHR 0x87],
      [CHR 0xE2, CHR 0x80, CHR 0x88], [CHR 0xE2, CHR 0x80, CHR 0x89],
      [CHR 0xE2, CHR 0x80, CHR 0x8A],
      [CHR 0xE2, CHR 0x80, CHR 0xA8], [CHR 0xE2, CHR 0x80, CHR 0xA9],
      [CHR 0xE2, CHR 0x80, CHR 0xAF],
      [CHR 0xE2, CHR 0x81, CHR 0x9F],
      [CHR 0xE3, CHR 0x80, CHR 0x80]]"

text \<open>One leading character out of a list of encodings, if the string starts with one.\<close>

fun stripRune :: "string list \<Rightarrow> string \<Rightarrow> string option" where
  "stripRune [] s = None"
| "stripRune (r # rs) s =
     (if r \<noteq> [] \<and> take (length r) s = r then Some (drop (length r) s) else stripRune rs s)"

function trimLeft :: "string list \<Rightarrow> string \<Rightarrow> string" where
  "trimLeft rs s = (case stripRune rs s of None \<Rightarrow> s | Some t \<Rightarrow> trimLeft rs t)"
  by pat_completeness auto
termination
proof (relation "measure (\<lambda>(rs, s). length s)")
  show "wf (measure (\<lambda>(rs, s). length s))" by simp
next
  fix rs :: "string list" and s t :: string
  assume "stripRune rs s = Some t"
  then have "length t < length s"
  proof (induction rs)
    case Nil
    then show ?case by simp
  next
    case (Cons r rs)
    show ?case
    proof (cases "r \<noteq> [] \<and> take (length r) s = r")
      case True
      then have "s \<noteq> []" by auto
      with True Cons.prems show ?thesis by (cases r) auto
    next
      case False
      with Cons show ?thesis by auto
    qed
  qed
  then show "((rs, t), (rs, s)) \<in> measure (\<lambda>(rs, s). length s)" by simp
qed

text \<open>The trailing characters are found by their reversed encodings in the reversed string.\<close>

definition TrimSpace :: "string \<Rightarrow> string" where
  "TrimSpace s = rev (trimLeft (map rev spaceRunes) (rev (trimLeft spaceRunes s)))"

subsection \<open>The plaintext configuration backend\<close>

text \<open>
  Modelled from the spec: the key-value configuration backend is the library behind the
  calls \<open>viper.Set\<close>, \<open>viper.GetString\<close>, \<open>viper.IsSet\<close>, \<open>viper.RegisterAlias\<close>,
  \<open>viper.ReadInConfig\<close>, \<open>MergeInConfig\<close> and \<open>WriteConfig\<close>; it is not part of the
  sources. Its contract is a mapping from dotted field paths to string values with get,
  set, alias registration (an alias resolves transparently on get), merge from disk and
  write. A backend object holds the values set by the program (\<open>override\<close>), the values
  loaded from its file (\<open>config\<close>), the alias table, the path of its file (empty: none) and the
  configuration type set for it (empty: taken from the extension of the file). Values set
  by the program shadow loaded ones.
\<close>

record viper =
  override :: "string \<rightharpoonup> string"
  config :: "string \<rightharpoonup> string"
  aliases :: "(string \<times> string) list"
  configFile :: string
  configType :: string

text \<open>\<open>viper.New()\<close>\<close>

definition viperNew :: viper where
  "viperNew =
     \<lparr> override = Map.empty, config = Map.empty, aliases = [], configFile = [],
       configType = [] \<rparr>"

text \<open>
  Alias resolution follows the table until a key that is no alias. \<open>RegisterAlias\<close>
  refuses an entry that would close a cycle and never replaces one, so a chain is no
  longer than the table; the recursion is bounded by its length.
\<close>

fun realKeyN :: "nat \<Rightarrow> (string \<times> string) list \<Rightarrow> string \<Rightarrow> string" where
  "realKeyN 0 a key = key"
| "realKeyN (Suc n) a key =
     (case map_of a key of None \<Rightarrow> key | Some newkey \<Rightarrow> realKeyN n a newkey)"

definition realKey :: "viper \<Rightarrow> string \<Rightarrow> string" where
  "realKey v key = realKeyN (length (aliases v)) (aliases v) key"

definition vfind :: "viper \<Rightarrow> string \<Rightarrow> string option" where
  "vfind v key =
     (let k = realKey v key in
      case override v k of Some x \<Rightarrow> Some x | None \<Rightarrow> config v k)"

definition GetString :: "viper \<Rightarrow> string \<Rightarrow> string" where
  "GetString v key = (case vfind v key of None \<Rightarrow> [] | Some x \<Rightarrow> x)"

definition IsSet :: "viper \<Rightarrow> string \<Rightarrow> bool" where
  "IsSet v key \<longleftrightarrow> vfind v key \<noteq> None"

definition SetV :: "string \<Rightarrow> string \<Rightarrow> viper \<Rightarrow> viper" where
  "SetV key val v = v\<lparr> override := (override v)(realKey v key \<mapsto> val) \<rparr>"

definition RegisterAliasV :: "string \<Rightarrow> string \<Rightarrow> viper \<Rightarrow> viper" where
  "RegisterAliasV alias key v =
     (if alias \<noteq> key \<and> alias \<noteq> realKey v key then
        (if map_of (aliases v) alias = None
         then v\<lparr> aliases := aliases v @ [(alias, key)] \<rparr>
         else v)
      else v)"

text \<open>\<open>AllSettings\<close>: every key the backend resolves, with its value; what is written.\<close>

definition AllSettings :: "viper \<Rightarrow> (string \<rightharpoonup> string)" where
  "AllSettings v = (\<lambda>key. vfind v key)"

definition SetConfigFile :: "string \<Rightarrow> viper \<Rightarrow> viper" where
  "SetConfigFile path v = v\<lparr> configFile := path \<rparr>"

text \<open>\<open>SetConfigType\<close> keeps the type it is given, unless that is empty.\<close>

definition SetConfigType :: "string \<Rightarrow> viper \<Rightarrow> viper" where
  "SetConfigType t v = (if t \<noteq> [] then v\<lparr> configType := t \<rparr> else v)"

text \<open>
  \<open>filepath.Ext\<close>: the suffix of the last element of the path that begins at its final
  dot, the dot included; empty if that element has no dot.
\<close>

definition Ext :: "string \<Rightarrow> string" where
  "Ext path =
     (let name = rev (takeWhile (\<lambda>c. c \<noteq> CHR ''/'') (rev path)) in
      if CHR ''.'' \<in> set name
      then CHR ''.'' # rev (takeWhile (\<lambda>c. c \<noteq> CHR ''.'') (rev name))
      else [])"

text \<open>
  The configuration types the backend can read and write. They are names of formats;
  none begins with a dot.
\<close>

definition SupportedExts :: "string list" where
  "SupportedExts =
     [''json'', ''toml'', ''yaml'', ''yml'', ''properties'', ''props'', ''prop'', ''hcl'',
      ''dotenv'', ''env'', ''ini'']"

text \<open>
  The type under which a backend object reads its file: the one set with
  \<open>SetConfigType\<close>, else the extension of its file without the dot.
\<close>

definition getConfigType :: "viper \<Rightarrow> string" where
  "getConfigType v =
     (if configType v \<noteq> [] then configType v
      else if length (Ext (configFile v)) > 1 then tl (Ext (configFile v)) else [])"

subsection \<open>The process state\<close>

text \<open>
  Modelled from the spec: the secure secret backend behind \<open>storeLivemodeValue\<close> and
  \<open>RetrieveLivemodeValue\<close>, which are not part of the sources: it stores and retrieves
  one string per key, labelled at write time.

  The state of the process keeps a trace of what it does to the outside, in the order in
  which it happens: the calls to the secure backend and the writes of configuration
  files, each with the path and the settings written.
\<close>

datatype secure_op = Store string string string | Retrieve string

datatype event = SecureCall secure_op | FileWrite string "string \<rightharpoonup> string"

record world =
  getenv :: "string \<Rightarrow> string"
  gviper :: viper
  disk :: "string \<rightharpoonup> (string \<rightharpoonup> string)"
  keyring :: "string \<rightharpoonup> string"
  trace :: "event list"
  clockReads :: nat

fun secureOps :: "event list \<Rightarrow> secure_op list" where
  "secureOps [] = []"
| "secureOps (SecureCall c # es) = c # secureOps es"
| "secureOps (FileWrite path content # es) = secureOps es"

fun fileWrites :: "event list \<Rightarrow> (string \<times> (string \<rightharpoonup> string)) list" where
  "fileWrites [] = []"
| "fileWrites (SecureCall c # es) = fileWrites es"
| "fileWrites (FileWrite path content # es) = (path, content) # fileWrites es"

text \<open>The calls made to the secure backend so far, and the files written so far.\<close>

definition secureLog :: "world \<Rightarrow> secure_op list" where
  "secureLog w = secureOps (trace w)"


text \<open>
  The collaborators whose code is not part of the sources are parameters:
  \<open>validators.APIKey\<close>, \<open>RedactAPIKey\<close>, \<open>makePath\<close>, whether removing a key or writing a
  file fails, and the expiry string (\<open>time.Now\<close> plus \<open>KeyValidInDays\<close>, formatted with
  \<open>DateStringFormat\<close>) that the n-th reading of the clock yields.
\<close>

record ext =
  validAPIKey :: "string \<Rightarrow> error option"
  RedactAPIKey :: "string \<Rightarrow> string"
  makePath :: "string \<Rightarrow> error option"
  removeFails :: "string \<Rightarrow> error option"
  writeFails :: "string \<Rightarrow> error option"
  expiresAtOf :: "nat \<Rightarrow> string"

text \<open>
  A backend object is either the process-wide one (\<open>viper.GetViper()\<close>), which lives in
  the state and is changed in place, or one created by \<open>removeKey\<close>, owned by the caller.
\<close>

datatype vptr = GlobalViper | OwnViper viper

fun deref :: "world \<times> vptr \<Rightarrow> viper" where
  "deref (w, GlobalViper) = gviper w"
| "deref (w, OwnViper v) = v"

fun modify :: "(viper \<Rightarrow> viper) \<Rightarrow> world \<times> vptr \<Rightarrow> world \<times> vptr" where
  "modify f (w, GlobalViper) = (w\<lparr> gviper := f (gviper w) \<rparr>, GlobalViper)"
| "modify f (w, OwnViper v) = (w, OwnViper (f v))"

text \<open>
  \<open>ReadInConfig\<close> replaces the loaded values by the file's. It fails without a file,
  and when the configuration type of the object is not a supported one.
\<close>

definition ReadInConfig :: "world \<Rightarrow> error option \<times> world" where
  "ReadInConfig w =
     (let v = gviper w in
      if configFile v = [] then (Some ErrConfigFileNotFound, w)
      else if getConfigType v \<notin> set SupportedExts
      then (Some (ErrUnsupportedConfig (getConfigType v)), w)
      else case disk w (configFile v) of
             None \<Rightarrow> (Some ErrConfigFileNotFound, w)
           | Some content \<Rightarrow> (None, w\<lparr> gviper := v\<lparr> config := content \<rparr> \<rparr>))"

text \<open>
  \<open>MergeInConfig\<close> adds the file's values to the loaded ones. It fails as
  \<open>ReadInConfig\<close> does; \<open>writeProfile\<close> drops its error, so a failure is a no-op.
\<close>

definition MergeInConfig :: "(string \<rightharpoonup> (string \<rightharpoonup> string)) \<Rightarrow> viper \<Rightarrow> viper" where
  "MergeInConfig d v =
     (if configFile v = [] then v
      else if getConfigType v \<notin> set SupportedExts then v
      else case d (configFile v) of
             None \<Rightarrow> v
           | Some content \<Rightarrow> v\<lparr> config := config v ++ content \<rparr>)"

text \<open>
  \<open>WriteConfig\<close> writes all settings of the object to its file, in the format that
  the extension of the file names. It fails without a file, when the extension is
  missing or not supported, and when the file cannot be written.
\<close>

definition WriteConfig :: "ext \<Rightarrow> world \<times> vptr \<Rightarrow> error option \<times> world" where
  "WriteConfig X s =
     (let v = deref s; w = fst s in
      if configFile v = [] then (Some ErrConfigFileNotFound, w)
      else if length (Ext (configFile v)) \<le> 1 \<or> tl (Ext (configFile v)) \<notin> set SupportedExts
      then (Some (ErrUnsupportedConfig (tl (Ext (configFile v)))), w)
      else case writeFails X (configFile v) of
             Some err \<Rightarrow> (Some err, w)
           | None \<Rightarrow>
               (None, w\<lparr> disk := (disk w)(configFile v \<mapsto> AllSettings v),
                           trace := trace w @ [FileWrite (configFile v) (AllSettings v)] \<rparr>))"

subsection \<open>Field operations\<close>

definition RegisterAlias :: "Profile \<Rightarrow> string \<Rightarrow> string \<Rightarrow> world \<Rightarrow> world" where
  "RegisterAlias p alias key w =
     w\<lparr> gviper := RegisterAliasV (GetConfigField p alias) (GetConfigField p key) (gviper w) \<rparr>"

definition WriteConfigField :: "ext \<Rightarrow> Profile \<Rightarrow> string \<Rightarrow> string \<Rightarrow> world \<Rightarrow> error option \<times> world" where
  "WriteConfigField X p field val w =
     WriteConfig X (modify (SetV (GetConfigField p field) val) (w, GlobalViper))"

subsection \<open>Helpers of the writer\<close>

text \<open>\<open>getKeyExpiresAt\<close> reads the clock once.\<close>

definition getKeyExpiresAt :: "ext \<Rightarrow> world \<Rightarrow> string \<times> world" where
  "getKeyExpiresAt X w = (expiresAtOf X (clockReads w), w\<lparr> clockReads := Suc (clockReads w) \<rparr>)"

text \<open>
  Modelled from the spec: \<open>storeLivemodeValue\<close> and \<open>RetrieveLivemodeValue\<close> are missing
  from the sources. The first stores the value in the secure backend under the
  namespaced field with a label; the caller gets no result back. The second retrieves
  the value stored under the namespaced field, empty when absent.
\<close>

definition storeLivemodeValue :: "Profile \<Rightarrow> string \<Rightarrow> string \<Rightarrow> string \<Rightarrow> world \<Rightarrow> world" where
  "storeLivemodeValue p field val description w =
     (let fieldID = GetConfigField p field in
      w\<lparr> keyring := (keyring w)(fieldID \<mapsto> val),
         trace := trace w @ [SecureCall (Store fieldID val description)] \<rparr>)"

definition RetrieveLivemodeValue :: "Profile \<Rightarrow> string \<Rightarrow> world \<Rightarrow> string \<times> world" where
  "RetrieveLivemodeValue p field w =
     (let fieldID = GetConfigField p field in
      (case keyring w fieldID of None \<Rightarrow> [] | Some x \<Rightarrow> x,
       w\<lparr> trace := trace w @ [SecureCall (Retrieve fieldID)] \<rparr>))"

text \<open>
  Modelled from the spec: \<open>removeKey\<close> is missing from the sources. It deletes one key
  of the backend and fails if the key does not exist; the source shows that it returns
  a backend object of its own (\<open>writeProfile\<close> sets the file of that object afterwards).
  The new object holds all settings of the old one but the key, and no file.
\<close>

definition removeKey :: "ext \<Rightarrow> viper \<Rightarrow> string \<Rightarrow> error + viper" where
  "removeKey X v key =
     (if \<not> IsSet v key then Inl (ErrKeyNotFound key)
      else case removeFails X key of
             Some err \<Rightarrow> Inl err
           | None \<Rightarrow> Inr (viperNew\<lparr> config := (AllSettings v)(key := None) \<rparr>))"

definition safeRemove :: "ext \<Rightarrow> Profile \<Rightarrow> string \<Rightarrow> world \<times> vptr \<Rightarrow> world \<times> vptr" where
  "safeRemove X p key s =
     (if IsSet (deref s) (GetConfigField p key) then
        (case removeKey X (deref s) (GetConfigField p key) of
           Inr newViper \<Rightarrow> (fst s, OwnViper newViper)
         | Inl err \<Rightarrow> s)
      else s)"

definition livemodeKeyField :: "bool \<Rightarrow> string" where
  "livemodeKeyField livemode = (if livemode then LiveModeAPIKeyName else TestModeAPIKeyName)"

subsection \<open>The writer\<close>

text \<open>The block of \<open>writeProfile\<close> for a non-empty \<open>LiveModeAPIKey\<close>.\<close>

definition writeLiveModeAPIKey :: "ext \<Rightarrow> Profile \<Rightarrow> world \<times> vptr \<Rightarrow> world \<times> vptr" where
  "writeLiveModeAPIKey X p s =
     (let (expiresAt, w1) = getKeyExpiresAt X (fst s);
          s1 = (w1, snd s);
          s2 = modify (SetV (GetConfigField p LiveModeAPIKeyName)
                 (RedactAPIKey X (TrimSpace (LiveModeAPIKey p)))) s1;
          s3 = modify (SetV (GetConfigField p LiveModeExpiresAtName) expiresAt) s2;
          w4 = storeLivemodeValue p LiveModeAPIKeyName (TrimSpace (LiveModeAPIKey p))
                 ''Live mode API key'' (fst s3);
          w5 = storeLivemodeValue p LiveModeExpiresAtName expiresAt
                 ''Live mode API key expirary'' w4
      in (w5, snd s3))"

text \<open>The block for a non-empty \<open>LiveModePublishableKey\<close>.\<close>

definition writeLiveModePublishableKey :: "ext \<Rightarrow> Profile \<Rightarrow> world \<times> vptr \<Rightarrow> world \<times> vptr" where
  "writeLiveModePublishableKey X p s =
     (let s1 = modify (SetV (GetConfigField p LiveModePublishableKeyName)
                 (RedactAPIKey X (TrimSpace (LiveModePublishableKey p)))) s;
          w2 = storeLivemodeValue p LiveModePublishableKeyName
                 (TrimSpace (LiveModePublishableKey p)) ''Live mode publishable key'' (fst s1)
      in (w2, snd s1))"

text \<open>The block for a non-empty \<open>TestModeAPIKey\<close>.\<close>

definition writeTestModeAPIKey :: "ext \<Rightarrow> Profile \<Rightarrow> world \<times> vptr \<Rightarrow> world \<times> vptr" where
  "writeTestModeAPIKey X p s =
     (let s1 = modify (SetV (GetConfigField p TestModeAPIKeyName)
                 (TrimSpace (TestModeAPIKey p))) s;
          (expiresAt, w2) = getKeyExpiresAt X (fst s1)
      in modify (SetV (GetConfigField p TestModeExpiresAtName) expiresAt) (w2, snd s1))"

text \<open>The statements of \<open>writeProfile\<close> up to the merge: every non-empty field is set.\<close>

definition setFields :: "ext \<Rightarrow> Profile \<Rightarrow> world \<times> vptr \<Rightarrow> world \<times> vptr" where
  "setFields X p s0 =
     (let s1 = (if DeviceName p \<noteq> [] then
                  modify (SetV (GetConfigField p DeviceNameName) (TrimSpace (DeviceName p))) s0
                else s0);
          s2 = (if LiveModeAPIKey p \<noteq> [] then writeLiveModeAPIKey X p s1 else s1);
          s3 = (if LiveModePublishableKey p \<noteq> [] then writeLiveModePublishableKey X p s2
                else s2);
          s4 = (if TestModeAPIKey p \<noteq> [] then writeTestModeAPIKey X p s3 else s3);
          s5 = (if TestModePublishableKey p \<noteq> [] then
                  modify (SetV (GetConfigField p TestModePublishableKeyName)
                    (TrimSpace (TestModePublishableKey p))) s4
                else s4);
          s6 = (if DisplayName p \<noteq> [] then
                  modify (SetV (GetConfigField p DisplayNameName) (TrimSpace (DisplayName p))) s5
                else s5);
          s7 = (if AccountID p \<noteq> [] then
                  modify (SetV (GetConfigField p AccountIDName) (TrimSpace (AccountID p))) s6
                else s6)
      in s7)"

text \<open>The clean-up of legacy fields, done after the merge.\<close>

definition removeLegacy :: "ext \<Rightarrow> Profile \<Rightarrow> world \<times> vptr \<Rightarrow> world \<times> vptr" where
  "removeLegacy X p s0 =
     (let s1 = (if TestModeAPIKey p \<noteq> [] then
                  safeRemove X p ''api_key'' (safeRemove X p ''secret_key'' s0)
                else s0);
          s2 = (if TestModePublishableKey p \<noteq> [] then safeRemove X p ''publishable_key'' s1
                else s1)
      in s2)"

text \<open>
  \<open>writeProfile\<close>. The type it sets on the backend object is \<open>filepath.Ext\<close> of the
  file, which begins with the dot.
\<close>

definition writeProfile :: "ext \<Rightarrow> Profile \<Rightarrow> vptr \<Rightarrow> world \<Rightarrow> error option \<times> world" where
  "writeProfile X p runtimeViper w =
     (let profilesFile = configFile (gviper w) in
      case makePath X profilesFile of
        Some err \<Rightarrow> (Some err, w)
      | None \<Rightarrow>
         (let s1 = setFields X p (w, runtimeViper);
              s2 = modify (MergeInConfig (disk (fst s1))) s1;
              s3 = removeLegacy X p s2;
              s4 = modify (SetConfigFile profilesFile) s3;
              s5 = modify (SetConfigType (Ext profilesFile)) s4
          in WriteConfig X s5))"

definition CreateProfile :: "ext \<Rightarrow> Profile \<Rightarrow> world \<Rightarrow> error option \<times> world" where
  "CreateProfile X p w = writeProfile X p GlobalViper w"

definition DeleteConfigField :: "ext \<Rightarrow> Profile \<Rightarrow> string \<Rightarrow> world \<Rightarrow> error option \<times> world" where
  "DeleteConfigField X p field w =
     (case removeKey X (gviper w) (GetConfigField p field) of
        Inl err \<Rightarrow> (Some err, w)
      | Inr v \<Rightarrow> writeProfile X p (OwnViper v) w)"

subsection \<open>The getters\<close>

text \<open>
  Modelled from the spec: the constants \<open>ColorAuto\<close>, \<open>ColorOn\<close> and \<open>ColorOff\<close> are
  declared outside the sources; the supported values are \<open>auto\<close>, \<open>on\<close> and \<open>off\<close>.
\<close>

definition ColorAuto :: string where "ColorAuto = ''auto''"
definition ColorOn :: string where "ColorOn = ''on''"
definition ColorOff :: string where "ColorOff = ''off''"

definition GetColor :: "Profile \<Rightarrow> world \<Rightarrow> error + string" where
  "GetColor p w =
     (let color = GetString (gviper w) ''color'' in
      if color \<noteq> [] then Inr color
      else
        (let color = GetString (gviper w) (GetConfigField p ''color'') in
         if color = [] \<or> color = ColorAuto then Inr ColorAuto
         else if color = ColorOn then Inr ColorOn
         else if color = ColorOff then Inr ColorOff
         else Inl (ErrColorNotSupported color)))"

definition GetDeviceName :: "Profile \<Rightarrow> world \<Rightarrow> (error + string) \<times> world" where
  "GetDeviceName p w =
     (if getenv w ''STRIPE_DEVICE_NAME'' \<noteq> [] then (Inr (getenv w ''STRIPE_DEVICE_NAME''), w)
      else if DeviceName p \<noteq> [] then (Inr (DeviceName p), w)
      else case ReadInConfig w of
             (None, w1) \<Rightarrow> (Inr (GetString (gviper w1) (GetConfigField p DeviceNameName)), w1)
           | (Some err, w1) \<Rightarrow> (Inl ErrDeviceNameNotConfigured, w1))"

text \<open>
  The block of \<open>GetAPIKey\<close> that registers an alias for an old configuration, in test
  mode only.
\<close>

definition registerLegacyAliases :: "Profile \<Rightarrow> bool \<Rightarrow> world \<Rightarrow> world" where
  "registerLegacyAliases p livemode w =
     (if \<not> livemode then
        (if \<not> IsSet (gviper w) (GetConfigField p ''api_key'')
         then RegisterAlias p ''api_key'' ''secret_key'' w
         else RegisterAlias p TestModeAPIKeyName ''api_key'' w)
      else w)"

definition GetAPIKey :: "ext \<Rightarrow> Profile \<Rightarrow> bool \<Rightarrow> world \<Rightarrow> (error + string) \<times> world" where
  "GetAPIKey X p livemode w =
     (let envKey = getenv w ''STRIPE_API_KEY'' in
      if envKey \<noteq> [] then
        (case validAPIKey X envKey of Some err \<Rightarrow> (Inl err, w) | None \<Rightarrow> (Inr envKey, w))
      else if APIKey p \<noteq> [] then
        (case validAPIKey X (APIKey p) of
           Some err \<Rightarrow> (Inl err, w)
         | None \<Rightarrow> (Inr (APIKey p), w))
      else
        (let w1 = registerLegacyAliases p livemode w
         in case ReadInConfig w1 of
              (None, w2) \<Rightarrow>
                (let fieldID = livemodeKeyField livemode;
                     (key, w3) = (if \<not> livemode
                                  then (GetString (gviper w2) (GetConfigField p fieldID), w2)
                                  else RetrieveLivemodeValue p fieldID w2)
                 in case validAPIKey X key of
                      Some err \<Rightarrow> (Inl err, w3)
                    | None \<Rightarrow> (Inr key, w3))
            | (Some err, w2) \<Rightarrow> (Inl ErrAPIKeyNotConfigured, w2)))"

subsection \<open>Auxiliary notions for the statements\<close>

text \<open>
  The fields \<open>writeProfile\<close> sets. They are apart in a backend when its alias table
  sends no two of them to the same key, so that setting one does not overwrite another;
  without aliases they are.
\<close>

definition writtenFields :: "string list" where
  "writtenFields =
     [DeviceNameName, LiveModeAPIKeyName, LiveModeExpiresAtName, LiveModePublishableKeyName,
      TestModeAPIKeyName, TestModeExpiresAtName, TestModePublishableKeyName, DisplayNameName,
      AccountIDName]"

definition fieldsApart :: "Profile \<Rightarrow> viper \<Rightarrow> bool" where
  "fieldsApart p v \<longleftrightarrow>
     distinct (map (\<lambda>field. realKey v (GetConfigField p field)) writtenFields)"

text \<open>A profile none of whose fields is set apart from its name.\<close>

definition emptyProfile :: "string \<Rightarrow> Profile" where
  "emptyProfile name =
     \<lparr> DeviceName = [], ProfileName = name, APIKey = [], LiveModeAPIKey = [],
       LiveModePublishableKey = [], TestModeAPIKey = [], TestModePublishableKey = [],
       TerminalPOSDeviceID = [], DisplayName = [], AccountID = [] \<rparr>"

text \<open>
  Sample collaborators and a sample state for evaluating the operations: a validator
  that accepts the keys starting with \<open>sk_\<close> or \<open>rk_\<close>, a redaction that keeps the first
  eight and the last four characters, no failures, and a configuration file that holds
  a device name for the profile \<open>default\<close>.
\<close>

definition sampleExt :: ext where
  "sampleExt =
     \<lparr> validAPIKey = (\<lambda>key. if key = [] then Some ErrAPIKeyNotConfigured
                          else if take 3 key = ''sk_'' \<or> take 3 key = ''rk_'' then None
                          else Some (ErrOther ''invalid API key'')),
       RedactAPIKey = (\<lambda>key. take 8 key @ replicate (length key - 12) (CHR ''*'')
                          @ drop (length key - 4) key),
       makePath = (\<lambda>path. None),
       removeFails = (\<lambda>key. None),
       writeFails = (\<lambda>path. None),
       expiresAtOf = (\<lambda>n. ''2026-01-30'') \<rparr>"

definition sampleViper :: viper where
  "sampleViper =
     \<lparr> override = Map.empty,
       config = [''default.device_name'' \<mapsto> ''laptop''],
       aliases = [],
       configFile = ''config.toml'',
       configType = [] \<rparr>"

definition sampleWorld :: world where
  "sampleWorld =
     \<lparr> getenv = (\<lambda>name. []),
       gviper = sampleViper,
       disk = [''config.toml'' \<mapsto> [''default.device_name'' \<mapsto> ''laptop'']],
       keyring = Map.empty,
       trace = [],
       clockReads = 0 \<rparr>"

text \<open>
  Sample profiles: one that carries a live-mode key with a blank before it and a
  no-break space (U+00A0) and a line feed after it.
\<close>

definition liveProfile :: Profile where
  "liveProfile = (emptyProfile ''default'')
     \<lparr> LiveModeAPIKey := '' sk_live_abcdefghijkl'' @ [CHR 0xC2, CHR 0xA0, CHR 0x0A] \<rparr>"

text \<open>A state whose configuration holds only the legacy field \<open>secret_key\<close>.\<close>

definition secretKeyWorld :: world where
  "secretKeyWorld =
     \<lparr> getenv = (\<lambda>name. []),
       gviper = \<lparr> override = Map.empty,
                  config = [''default.secret_key'' \<mapsto> ''sk_test_legacy''],
                  aliases = [],
                  configFile = ''config.toml'',
                  configType = [] \<rparr>,
       disk = [''config.toml'' \<mapsto> [''default.secret_key'' \<mapsto> ''sk_test_legacy'']],
       keyring = Map.empty,
       trace = [],
       clockReads = 0 \<rparr>"

text \<open>
  A state in which the flag \<open>color\<close> is \<open>purple\<close>, and one in which the profile
  \<open>default\<close> has \<open>purple\<close> as its persisted colour.
\<close>

definition purpleFlagWorld :: world where
  "purpleFlagWorld = sampleWorld\<lparr> gviper := SetV ''color'' ''purple'' sampleViper \<rparr>"

definition purpleProfileWorld :: world where
  "purpleProfileWorld = sampleWorld\<lparr> gviper := SetV ''default.color'' ''purple'' sampleViper \<rparr>"

text \<open>
  A state whose configuration holds only the legacy fields \<open>secret_key\<close> and
  \<open>publishable_key\<close> of the profile \<open>default\<close>, and a profile that carries test-mode keys.
\<close>

definition legacyViper :: viper where
  "legacyViper =
     \<lparr> override = Map.empty,
       config = [''default.secret_key'' \<mapsto> ''sk_test_legacy'',
                 ''default.publishable_key'' \<mapsto> ''pk_test_legacy''],
       aliases = [],
       configFile = ''config.toml'',
       configType = [] \<rparr>"

definition legacyWorld :: world where
  "legacyWorld =
     \<lparr> getenv = (\<lambda>name. []),
       gviper = legacyViper,
       disk = [''config.toml'' \<mapsto> [''default.secret_key'' \<mapsto> ''sk_test_legacy'',
                 ''default.publishable_key'' \<mapsto> ''pk_test_legacy'']],
       keyring = Map.empty,
       trace = [],
       clockReads = 0 \<rparr>"

definition testProfile :: Profile where
  "testProfile = (emptyProfile ''default'')
     \<lparr> TestModeAPIKey := ''sk_test_abcdefghijkl'' @ [CHR 0xE2, CHR 0x80, CHR 0x83],
       TestModePublishableKey := ''pk_test_abcdefghijkl'' \<rparr>"

text \<open>A profile that carries a test-mode key and nothing else.\<close>

definition testOnlyProfile :: Profile where
  "testOnlyProfile = (emptyProfile ''default'')\<lparr> TestModeAPIKey := ''sk_test_abcdefghijkl'' \<rparr>"

text \<open>
  A state whose loaded configuration agrees with its file, with several fields of the
  profile \<open>default\<close>; and one whose file holds a field that is not loaded.
\<close>

definition syncedWorld :: world where
  "syncedWorld =
     sampleWorld
       \<lparr> gviper := sampleViper
           \<lparr> config := [''default.device_name'' \<mapsto> ''laptop'',
                        ''default.account_id'' \<mapsto> ''acct_1'',
                        ''default.color'' \<mapsto> ''on''] \<rparr>,
         disk := [''config.toml'' \<mapsto>
                    [''default.device_name'' \<mapsto> ''laptop'',
                     ''default.account_id'' \<mapsto> ''acct_1'',
                     ''default.color'' \<mapsto> ''on'']] \<rparr>"

definition staleWorld :: world where
  "staleWorld =
     sampleWorld
       \<lparr> disk := [''config.toml'' \<mapsto>
                    [''default.device_name'' \<mapsto> ''laptop'',
                     ''default.account_id'' \<mapsto> ''acct_1'']] \<rparr>"



text \<open>States with an environment override, and with stored test-mode and live-mode keys.\<close>

definition envWorld :: "string \<Rightarrow> world" where
  "envWorld key = sampleWorld\<lparr> getenv := (\<lambda>name. if name = ''STRIPE_API_KEY'' then key else []) \<rparr>"

definition storedKeyWorld :: "string \<Rightarrow> string \<Rightarrow> world" where
  "storedKeyWorld testKey liveKey =
     sampleWorld\<lparr> disk := [''config.toml'' \<mapsto> [''default.test_mode_api_key'' \<mapsto> testKey]],
                  keyring := [''default.live_mode_api_key'' \<mapsto> liveKey] \<rparr>"

section \<open>Properties\<close>

lemmas field_names =
  AccountIDName_def DeviceNameName_def DisplayNameName_def TestModeAPIKeyName_def
  TestModePublishableKeyName_def TestModeExpiresAtName_def LiveModeAPIKeyName_def
  LiveModePublishableKeyName_def LiveModeExpiresAtName_def

subsection \<open>The backend operations\<close>

lemma secureOps_append [simp]: "secureOps (xs @ ys) = secureOps xs @ secureOps ys"
  by (induction xs rule: secureOps.induct) simp_all

lemma fileWrites_append [simp]: "fileWrites (xs @ ys) = fileWrites xs @ fileWrites ys"
  by (induction xs rule: fileWrites.induct) simp_all

lemma fields_SetV [simp]:
  "aliases (SetV k x v) = aliases v"
  "configFile (SetV k x v) = configFile v"
  "configType (SetV k x v) = configType v"
  "config (SetV k x v) = config v"
  by (simp_all add: SetV_def)

lemma realKey_SetV [simp]: "realKey (SetV k x v) = realKey v"
  by (rule ext) (simp add: realKey_def)

lemma override_SetV:
  "override (SetV k x v) k' = (if k' = realKey v k then Some x else override v k')"
  by (simp add: SetV_def)

lemma vfind_SetV:
  "vfind (SetV k x v) k' = (if realKey v k' = realKey v k then Some x else vfind v k')"
  by (simp add: vfind_def Let_def override_SetV split: option.splits)

lemma vfind_override: "override v (realKey v k) = Some x \<Longrightarrow> vfind v k = Some x"
  by (simp add: vfind_def)

lemma fields_MergeInConfig [simp]:
  "aliases (MergeInConfig d v) = aliases v"
  "configFile (MergeInConfig d v) = configFile v"
  "configType (MergeInConfig d v) = configType v"
  "override (MergeInConfig d v) = override v"
  by (simp_all add: MergeInConfig_def split: option.splits)

lemma realKey_MergeInConfig [simp]: "realKey (MergeInConfig d v) = realKey v"
  by (rule ext) (simp add: realKey_def)

lemma fields_SetConfigFile [simp]:
  "aliases (SetConfigFile f v) = aliases v"
  "configFile (SetConfigFile f v) = f"
  "override (SetConfigFile f v) = override v"
  "config (SetConfigFile f v) = config v"
  by (simp_all add: SetConfigFile_def)

lemma fields_SetConfigType [simp]:
  "aliases (SetConfigType t v) = aliases v"
  "configFile (SetConfigType t v) = configFile v"
  "override (SetConfigType t v) = override v"
  "config (SetConfigType t v) = config v"
  by (simp_all add: SetConfigType_def)

lemma vfind_SetConfigFile [simp]: "vfind (SetConfigFile f v) = vfind v"
  by (rule ext) (simp add: vfind_def realKey_def Let_def split: option.splits)

lemma vfind_SetConfigType [simp]: "vfind (SetConfigType t v) = vfind v"
  by (rule ext) (simp add: vfind_def realKey_def Let_def split: option.splits)

lemma vfind_fresh [simp]: "vfind (viperNew\<lparr> config := m \<rparr>) k = m k"
  by (simp add: vfind_def realKey_def viperNew_def)

lemma deref_modify [simp]: "deref (modify f s) = f (deref s)"
  by (cases s, case_tac b) simp_all

lemma world_modify [simp]:
  "trace (fst (modify f s)) = trace (fst s)"
  "keyring (fst (modify f s)) = keyring (fst s)"
  "disk (fst (modify f s)) = disk (fst s)"
  "getenv (fst (modify f s)) = getenv (fst s)"
  "clockReads (fst (modify f s)) = clockReads (fst s)"
  by (cases s, case_tac b, simp_all)+

lemma global_modify [simp]: "snd (modify f s) = GlobalViper \<longleftrightarrow> snd s = GlobalViper"
  by (cases s, case_tac b) simp_all

lemma gviper_modify:
  "gviper (fst (modify f s)) = (if snd s = GlobalViper then f (gviper (fst s)) else gviper (fst s))"
  by (cases s, case_tac b) simp_all


lemma fst_safeRemove [simp]: "fst (safeRemove X p key s) = fst s"
  by (simp add: safeRemove_def split: sum.splits)

lemma vfind_safeRemove:
  "vfind (deref (safeRemove X p key s)) k =
     (if IsSet (deref s) (GetConfigField p key) \<and> removeFails X (GetConfigField p key) = None
         \<and> k = GetConfigField p key
      then None else vfind (deref s) k)"
  by (auto simp: safeRemove_def removeKey_def AllSettings_def IsSet_def split: sum.splits option.splits)

lemma GetConfigField_inj [simp]: "GetConfigField p f = GetConfigField p g \<longleftrightarrow> f = g"
  by (simp add: GetConfigField_def)

lemma WriteConfig_result:
  "fst (WriteConfig X s) =
     (if configFile (deref s) = [] then Some ErrConfigFileNotFound
      else if length (Ext (configFile (deref s))) \<le> 1 \<or>
              tl (Ext (configFile (deref s))) \<notin> set SupportedExts
      then Some (ErrUnsupportedConfig (tl (Ext (configFile (deref s)))))
      else writeFails X (configFile (deref s)))"
  "keyring (snd (WriteConfig X s)) = keyring (fst s)"
  "gviper (snd (WriteConfig X s)) = gviper (fst s)"
  "getenv (snd (WriteConfig X s)) = getenv (fst s)"
  "clockReads (snd (WriteConfig X s)) = clockReads (fst s)"
  "disk (snd (WriteConfig X s)) =
     (if fst (WriteConfig X s) = None
      then (disk (fst s))(configFile (deref s) \<mapsto> AllSettings (deref s))
      else disk (fst s))"
  "trace (snd (WriteConfig X s)) =
     (if fst (WriteConfig X s) = None
      then trace (fst s) @ [FileWrite (configFile (deref s)) (AllSettings (deref s))]
      else trace (fst s))"
  by (simp_all add: WriteConfig_def Let_def split: option.splits)

subsection \<open>The blocks of the writer\<close>

lemma deref_writeLiveModeAPIKey [simp]:
  "deref (writeLiveModeAPIKey X p s) =
     SetV (GetConfigField p LiveModeExpiresAtName) (expiresAtOf X (clockReads (fst s)))
       (SetV (GetConfigField p LiveModeAPIKeyName) (RedactAPIKey X (TrimSpace (LiveModeAPIKey p)))
          (deref s))"
  by (cases s, case_tac b)
     (simp_all add: writeLiveModeAPIKey_def getKeyExpiresAt_def storeLivemodeValue_def Let_def)

lemma world_writeLiveModeAPIKey [simp]:
  "disk (fst (writeLiveModeAPIKey X p s)) = disk (fst s)"
  "getenv (fst (writeLiveModeAPIKey X p s)) = getenv (fst s)"
  "clockReads (fst (writeLiveModeAPIKey X p s)) = Suc (clockReads (fst s))"
  "trace (fst (writeLiveModeAPIKey X p s)) = trace (fst s) @
     [SecureCall (Store (GetConfigField p LiveModeAPIKeyName) (TrimSpace (LiveModeAPIKey p))
        ''Live mode API key''),
      SecureCall (Store (GetConfigField p LiveModeExpiresAtName)
        (expiresAtOf X (clockReads (fst s))) ''Live mode API key expirary'')]"
  "keyring (fst (writeLiveModeAPIKey X p s)) =
     (keyring (fst s))(GetConfigField p LiveModeAPIKeyName \<mapsto> TrimSpace (LiveModeAPIKey p),
        GetConfigField p LiveModeExpiresAtName \<mapsto> expiresAtOf X (clockReads (fst s)))"
  "snd (writeLiveModeAPIKey X p s) = GlobalViper \<longleftrightarrow> snd s = GlobalViper"
  by (cases s, case_tac b,
      simp_all add: writeLiveModeAPIKey_def getKeyExpiresAt_def storeLivemodeValue_def Let_def)+

lemma deref_writeLiveModePublishableKey [simp]:
  "deref (writeLiveModePublishableKey X p s) =
     SetV (GetConfigField p LiveModePublishableKeyName)
       (RedactAPIKey X (TrimSpace (LiveModePublishableKey p))) (deref s)"
  by (cases s, case_tac b)
     (simp_all add: writeLiveModePublishableKey_def storeLivemodeValue_def Let_def)

lemma world_writeLiveModePublishableKey [simp]:
  "disk (fst (writeLiveModePublishableKey X p s)) = disk (fst s)"
  "getenv (fst (writeLiveModePublishableKey X p s)) = getenv (fst s)"
  "clockReads (fst (writeLiveModePublishableKey X p s)) = clockReads (fst s)"
  "trace (fst (writeLiveModePublishableKey X p s)) = trace (fst s) @
     [SecureCall (Store (GetConfigField p LiveModePublishableKeyName)
        (TrimSpace (LiveModePublishableKey p)) ''Live mode publishable key'')]"
  "keyring (fst (writeLiveModePublishableKey X p s)) =
     (keyring (fst s))(GetConfigField p LiveModePublishableKeyName \<mapsto>
        TrimSpace (LiveModePublishableKey p))"
  "snd (writeLiveModePublishableKey X p s) = GlobalViper \<longleftrightarrow> snd s = GlobalViper"
  by (cases s, case_tac b,
      simp_all add: writeLiveModePublishableKey_def storeLivemodeValue_def Let_def)+

lemma deref_writeTestModeAPIKey [simp]:
  "deref (writeTestModeAPIKey X p s) =
     SetV (GetConfigField p TestModeExpiresAtName) (expiresAtOf X (clockReads (fst s)))
       (SetV (GetConfigField p TestModeAPIKeyName) (TrimSpace (TestModeAPIKey p)) (deref s))"
  by (cases s, case_tac b)
     (simp_all add: writeTestModeAPIKey_def getKeyExpiresAt_def Let_def)

lemma world_writeTestModeAPIKey [simp]:
  "disk (fst (writeTestModeAPIKey X p s)) = disk (fst s)"
  "getenv (fst (writeTestModeAPIKey X p s)) = getenv (fst s)"
  "clockReads (fst (writeTestModeAPIKey X p s)) = Suc (clockReads (fst s))"
  "trace (fst (writeTestModeAPIKey X p s)) = trace (fst s)"
  "keyring (fst (writeTestModeAPIKey X p s)) = keyring (fst s)"
  "snd (writeTestModeAPIKey X p s) = GlobalViper \<longleftrightarrow> snd s = GlobalViper"
  by (cases s, case_tac b,
      simp_all add: writeTestModeAPIKey_def getKeyExpiresAt_def Let_def)+


lemma frame_setFields [simp]:
  "disk (fst (setFields X p s)) = disk (fst s)"
  "getenv (fst (setFields X p s)) = getenv (fst s)"
  "realKey (deref (setFields X p s)) = realKey (deref s)"
  "aliases (deref (setFields X p s)) = aliases (deref s)"
  "configFile (deref (setFields X p s)) = configFile (deref s)"
  "configType (deref (setFields X p s)) = configType (deref s)"
  "config (deref (setFields X p s)) = config (deref s)"
  "snd (setFields X p s) = GlobalViper \<longleftrightarrow> snd s = GlobalViper"
  by (simp_all add: setFields_def Let_def)



lemma fst_removeLegacy [simp]: "fst (removeLegacy X p s) = fst s"
  by (simp add: removeLegacy_def Let_def)

lemma vfind_removeLegacy_other:
  "k \<noteq> GetConfigField p ''secret_key'' \<Longrightarrow> k \<noteq> GetConfigField p ''api_key'' \<Longrightarrow>
   k \<noteq> GetConfigField p ''publishable_key'' \<Longrightarrow>
   vfind (deref (removeLegacy X p s)) k = vfind (deref s) k"
  by (simp add: removeLegacy_def Let_def vfind_safeRemove)


subsection \<open>The writer\<close>

lemma apart_simps:
  assumes "fieldsApart p v"
  shows "distinct [realKey v (GetConfigField p DeviceNameName),
     realKey v (GetConfigField p LiveModeAPIKeyName),
     realKey v (GetConfigField p LiveModeExpiresAtName),
     realKey v (GetConfigField p LiveModePublishableKeyName),
     realKey v (GetConfigField p TestModeAPIKeyName),
     realKey v (GetConfigField p TestModeExpiresAtName),
     realKey v (GetConfigField p TestModePublishableKeyName),
     realKey v (GetConfigField p DisplayNameName),
     realKey v (GetConfigField p AccountIDName)]"
  using assms by (simp add: fieldsApart_def writtenFields_def)



lemma setFields_test:
  assumes "TestModeAPIKey p \<noteq> []" "fieldsApart p (deref s)"
  shows "override (deref (setFields X p s)) (realKey (deref s) (GetConfigField p TestModeAPIKeyName))
     = Some (TrimSpace (TestModeAPIKey p))"
  using apart_simps[OF assms(2)] assms(1)
  by (simp add: setFields_def Let_def override_SetV)

lemma setFields_test_publishable:
  assumes "TestModePublishableKey p \<noteq> []" "fieldsApart p (deref s)"
  shows "override (deref (setFields X p s))
           (realKey (deref s) (GetConfigField p TestModePublishableKeyName))
     = Some (TrimSpace (TestModePublishableKey p))"
  using apart_simps[OF assms(2)] assms(1)
  by (simp add: setFields_def Let_def override_SetV)



lemma legacy_names [simp]:
  "LiveModeAPIKeyName \<noteq> ''secret_key''" "LiveModeAPIKeyName \<noteq> ''api_key''"
  "LiveModeAPIKeyName \<noteq> ''publishable_key''"
  "LiveModeExpiresAtName \<noteq> ''secret_key''" "LiveModeExpiresAtName \<noteq> ''api_key''"
  "LiveModeExpiresAtName \<noteq> ''publishable_key''"
  "TestModeAPIKeyName \<noteq> ''secret_key''" "TestModeAPIKeyName \<noteq> ''api_key''"
  "TestModeAPIKeyName \<noteq> ''publishable_key''"
  "TestModePublishableKeyName \<noteq> ''secret_key''" "TestModePublishableKeyName \<noteq> ''api_key''"
  "TestModePublishableKeyName \<noteq> ''publishable_key''"
  by (simp_all add: field_names)

text \<open>
  What \<open>writeProfile\<close> returns, writes and leaves behind, in terms of the backend object
  it has built when it reaches \<open>WriteConfig\<close>.
\<close>

lemma writeProfile_error:
  "fst (writeProfile X p runtimeViper w) =
     (case makePath X (configFile (gviper w)) of
        Some err \<Rightarrow> Some err
      | None \<Rightarrow>
          if configFile (gviper w) = [] then Some ErrConfigFileNotFound
          else if length (Ext (configFile (gviper w))) \<le> 1 \<or>
                  tl (Ext (configFile (gviper w))) \<notin> set SupportedExts
          then Some (ErrUnsupportedConfig (tl (Ext (configFile (gviper w)))))
          else writeFails X (configFile (gviper w)))"
  by (simp add: writeProfile_def Let_def WriteConfig_result split: option.splits)

lemma writeProfile_disk:
  "disk (snd (writeProfile X p runtimeViper w)) =
     (if fst (writeProfile X p runtimeViper w) = None
      then (disk w)(configFile (gviper w) \<mapsto>
             vfind (deref (removeLegacy X p
               (modify (MergeInConfig (disk w)) (setFields X p (w, runtimeViper))))))
      else disk w)"
  by (simp add: writeProfile_def Let_def WriteConfig_result AllSettings_def split: option.splits)

lemma writeProfile_trace:
  "trace (snd (writeProfile X p runtimeViper w)) =
     (case makePath X (configFile (gviper w)) of
        Some err \<Rightarrow> trace w
      | None \<Rightarrow>
          trace (fst (setFields X p (w, runtimeViper))) @
          (if fst (writeProfile X p runtimeViper w) = None
           then [FileWrite (configFile (gviper w))
                   (vfind (deref (removeLegacy X p
                      (modify (MergeInConfig (disk w)) (setFields X p (w, runtimeViper))))))]
           else []))"
  by (simp add: writeProfile_def Let_def WriteConfig_result AllSettings_def split: option.splits)

lemma writeProfile_keyring:
  "makePath X (configFile (gviper w)) = None \<Longrightarrow>
   keyring (snd (writeProfile X p runtimeViper w)) = keyring (fst (setFields X p (w, runtimeViper)))"
  by (simp add: writeProfile_def Let_def WriteConfig_result)

lemma writeProfile_getenv [simp]:
  "getenv (snd (writeProfile X p runtimeViper w)) = getenv w"
  by (simp add: writeProfile_def Let_def WriteConfig_result split: option.splits)


subsection \<open>What the plaintext side gets of a live-mode key\<close>

















text \<open>
  C10. \<open>WriteConfigField\<close> stores the value as it is under the namespaced field of the
  plaintext backend, whatever the field and the value: nothing is trimmed or redacted,
  the secure backend is neither called nor changed, and when the write succeeds the file
  holds the value under that field. With the field \<open>live_mode_api_key\<close> this puts a raw
  live-mode key into the plaintext file.
\<close>

theorem WriteConfigField_verbatim:
  "vfind (gviper (snd (WriteConfigField X p field val w))) (GetConfigField p field) = Some val \<and>
   secureLog (snd (WriteConfigField X p field val w)) = secureLog w \<and>
   keyring (snd (WriteConfigField X p field val w)) = keyring w \<and>
   (fst (WriteConfigField X p field val w) = None \<longrightarrow>
      (\<exists>content. disk (snd (WriteConfigField X p field val w)) (configFile (gviper w))
                     = Some content \<and>
         content (GetConfigField p field) = Some val))"
  by (simp add: WriteConfigField_def WriteConfig_result AllSettings_def vfind_SetV secureLog_def)

theorem WriteConfigField_verbatim_witness:
  "fst (WriteConfigField sampleExt (emptyProfile ''default'') LiveModeAPIKeyName
          '' sk_live_abcdefghijkl '' sampleWorld) = None \<and>
   (\<exists>content. disk (snd (WriteConfigField sampleExt (emptyProfile ''default'') LiveModeAPIKeyName
                            '' sk_live_abcdefghijkl '' sampleWorld)) ''config.toml''
                  = Some content \<and>
      content ''default.live_mode_api_key'' = Some '' sk_live_abcdefghijkl '') \<and>
   keyring (snd (WriteConfigField sampleExt (emptyProfile ''default'') LiveModeAPIKeyName
                   '' sk_live_abcdefghijkl '' sampleWorld)) = keyring sampleWorld"
proof -
  have h: "fst (WriteConfigField sampleExt (emptyProfile ''default'') LiveModeAPIKeyName
          '' sk_live_abcdefghijkl '' sampleWorld) = None" by code_simp
  have e1: "GetConfigField (emptyProfile ''default'') LiveModeAPIKeyName = ''default.live_mode_api_key''"
    by code_simp
  have e4: "configFile (gviper sampleWorld) = ''config.toml''" by code_simp
  show ?thesis
    using WriteConfigField_verbatim [of sampleExt "emptyProfile ''default''" LiveModeAPIKeyName
                 "'' sk_live_abcdefghijkl ''" sampleWorld] h
    unfolding e1 e4 by simp
qed

subsection \<open>The clean-up of legacy fields\<close>

lemma removeLegacy_test:
  assumes "TestModeAPIKey p \<noteq> []"
  shows "removeFails X (GetConfigField p ''secret_key'') = None \<Longrightarrow>
           vfind (deref (removeLegacy X p s)) (GetConfigField p ''secret_key'') = None"
    and "removeFails X (GetConfigField p ''api_key'') = None \<Longrightarrow>
           vfind (deref (removeLegacy X p s)) (GetConfigField p ''api_key'') = None"
  using assms by (simp_all add: removeLegacy_def Let_def vfind_safeRemove IsSet_def)

lemma removeLegacy_publishable:
  assumes "TestModePublishableKey p \<noteq> []"
    and "removeFails X (GetConfigField p ''publishable_key'') = None"
  shows "vfind (deref (removeLegacy X p s)) (GetConfigField p ''publishable_key'') = None"
  using assms by (simp add: removeLegacy_def Let_def vfind_safeRemove IsSet_def)

text \<open>
  C7. What \<open>writeProfile\<close> returns does not depend on whether removing a legacy field
  fails. When the write succeeds, the file holds the new \<open>test_mode_api_key\<close> (and
  \<open>test_mode_publishable_key\<close>) whether or not a removal failed, and each legacy field
  (\<open>secret_key\<close>, \<open>api_key\<close>; \<open>publishable_key\<close>) whose removal does not fail is absent
  from it.
\<close>

theorem writeProfile_legacy_cleanup:
  assumes "fieldsApart p (deref (w, runtimeViper))"
  shows "fst (writeProfile (X\<lparr> removeFails := rf \<rparr>) p runtimeViper w)
           = fst (writeProfile X p runtimeViper w) \<and>
         (fst (writeProfile X p runtimeViper w) = None \<longrightarrow>
            (\<exists>content.
               disk (snd (writeProfile X p runtimeViper w)) (configFile (gviper w)) = Some content \<and>
               (TestModeAPIKey p \<noteq> [] \<longrightarrow>
                  content (GetConfigField p TestModeAPIKeyName) = Some (TrimSpace (TestModeAPIKey p)) \<and>
                  (removeFails X (GetConfigField p ''secret_key'') = None \<longrightarrow>
                     content (GetConfigField p ''secret_key'') = None) \<and>
                  (removeFails X (GetConfigField p ''api_key'') = None \<longrightarrow>
                     content (GetConfigField p ''api_key'') = None)) \<and>
               (TestModePublishableKey p \<noteq> [] \<longrightarrow>
                  content (GetConfigField p TestModePublishableKeyName)
                    = Some (TrimSpace (TestModePublishableKey p)) \<and>
                  (removeFails X (GetConfigField p ''publishable_key'') = None \<longrightarrow>
                     content (GetConfigField p ''publishable_key'') = None))))"
proof -
  let ?s1 = "setFields X p (w, runtimeViper)"
  let ?s2 = "modify (MergeInConfig (disk w)) ?s1"
  let ?c = "vfind (deref (removeLegacy X p ?s2))"
  have e: "fst (writeProfile (X\<lparr> removeFails := rf \<rparr>) p runtimeViper w)
           = fst (writeProfile X p runtimeViper w)"
    by (simp add: writeProfile_error split: option.splits)
  have t: "TestModeAPIKey p \<noteq> [] \<longrightarrow>
             ?c (GetConfigField p TestModeAPIKeyName) = Some (TrimSpace (TestModeAPIKey p))"
    using setFields_test[OF _ assms, of X]
    by (simp add: vfind_removeLegacy_other vfind_override)
  have u: "TestModePublishableKey p \<noteq> [] \<longrightarrow>
             ?c (GetConfigField p TestModePublishableKeyName)
               = Some (TrimSpace (TestModePublishableKey p))"
    using setFields_test_publishable[OF _ assms, of X]
    by (simp add: vfind_removeLegacy_other vfind_override)
  have d: "fst (writeProfile X p runtimeViper w) = None \<longrightarrow>
             disk (snd (writeProfile X p runtimeViper w)) (configFile (gviper w)) = Some ?c"
    by (simp add: writeProfile_disk)
  show ?thesis
  proof (intro conjI impI)
    show "fst (writeProfile (X\<lparr> removeFails := rf \<rparr>) p runtimeViper w)
           = fst (writeProfile X p runtimeViper w)"
      by (rule e)
  next
    assume "fst (writeProfile X p runtimeViper w) = None"
    with d have "disk (snd (writeProfile X p runtimeViper w)) (configFile (gviper w)) = Some ?c"
      by simp
    with t u show "\<exists>content.
               disk (snd (writeProfile X p runtimeViper w)) (configFile (gviper w)) = Some content \<and>
               (TestModeAPIKey p \<noteq> [] \<longrightarrow>
                  content (GetConfigField p TestModeAPIKeyName) = Some (TrimSpace (TestModeAPIKey p)) \<and>
                  (removeFails X (GetConfigField p ''secret_key'') = None \<longrightarrow>
                     content (GetConfigField p ''secret_key'') = None) \<and>
                  (removeFails X (GetConfigField p ''api_key'') = None \<longrightarrow>
                     content (GetConfigField p ''api_key'') = None)) \<and>
               (TestModePublishableKey p \<noteq> [] \<longrightarrow>
                  content (GetConfigField p TestModePublishableKeyName)
                    = Some (TrimSpace (TestModePublishableKey p)) \<and>
                  (removeFails X (GetConfigField p ''publishable_key'') = None \<longrightarrow>
                     content (GetConfigField p ''publishable_key'') = None))"
      by (simp add: removeLegacy_test removeLegacy_publishable)
  qed
qed

theorem writeProfile_legacy_cleanup_witness:
  "fieldsApart testProfile (deref (legacyWorld, GlobalViper)) \<and>
   fst (writeProfile (sampleExt\<lparr> removeFails := (\<lambda>key. Some (ErrOther ''encode'')) \<rparr>)
          testProfile GlobalViper legacyWorld) = None \<and>
   fst (writeProfile sampleExt testProfile GlobalViper legacyWorld) = None \<and>
   (\<exists>content.
      disk (snd (writeProfile sampleExt testProfile GlobalViper legacyWorld)) ''config.toml''
        = Some content \<and>
      content ''default.test_mode_api_key'' = Some ''sk_test_abcdefghijkl'' \<and>
      content ''default.secret_key'' = None \<and>
      content ''default.api_key'' = None \<and>
      content ''default.test_mode_publishable_key'' = Some ''pk_test_abcdefghijkl'' \<and>
      content ''default.publishable_key'' = None)"
proof -
  have h1: "fieldsApart testProfile (deref (legacyWorld, GlobalViper))" by code_simp
  have h2: "fst (writeProfile sampleExt testProfile GlobalViper legacyWorld) = None" by code_simp
  have h3: "TestModeAPIKey testProfile \<noteq> []" "TestModePublishableKey testProfile \<noteq> []"
    by code_simp+
  have h4: "removeFails sampleExt ''default.secret_key'' = None"
    "removeFails sampleExt ''default.api_key'' = None"
    "removeFails sampleExt ''default.publishable_key'' = None" by code_simp+
  have e1: "GetConfigField testProfile TestModeAPIKeyName = ''default.test_mode_api_key''"
    "GetConfigField testProfile ''secret_key'' = ''default.secret_key''"
    "GetConfigField testProfile ''api_key'' = ''default.api_key''"
    "GetConfigField testProfile TestModePublishableKeyName = ''default.test_mode_publishable_key''"
    "GetConfigField testProfile ''publishable_key'' = ''default.publishable_key''"
    by code_simp+
  have e2: "TrimSpace (TestModeAPIKey testProfile) = ''sk_test_abcdefghijkl''"
    "TrimSpace (TestModePublishableKey testProfile) = ''pk_test_abcdefghijkl''" by code_simp+
  have e4: "configFile (gviper legacyWorld) = ''config.toml''" by code_simp
  show ?thesis
    using writeProfile_legacy_cleanup
            [OF h1, where X = sampleExt and rf = "\<lambda>key. Some (ErrOther ''encode'')"]
      h1 h2 h3 h4
    unfolding e1 e2 e4 by simp
qed


subsection \<open>Deleting a field\<close>

lemma setFields_nothing:
  assumes "DeviceName p = []" "LiveModeAPIKey p = []" "LiveModePublishableKey p = []"
    "TestModeAPIKey p = []" "TestModePublishableKey p = []" "DisplayName p = []" "AccountID p = []"
  shows "setFields X p s = s"
  using assms by (simp add: setFields_def)

lemma removeLegacy_nothing:
  assumes "TestModeAPIKey p = []" "TestModePublishableKey p = []"
  shows "removeLegacy X p s = s"
  using assms by (simp add: removeLegacy_def)

lemma MergeInConfig_fresh [simp]:
  "MergeInConfig d (viperNew\<lparr> config := m \<rparr>) = viperNew\<lparr> config := m \<rparr>"
  by (simp add: MergeInConfig_def viperNew_def)

text \<open>
  C8. Take a profile none of whose writable fields is set in memory, and a backend
  whose settings are those of its file. A successful \<open>DeleteConfigField\<close> then replaces
  the file by the old file without the one namespaced field: every other field of the
  file, and every other file, stays as it was. The secure backend is neither called nor
  changed.
\<close>

theorem DeleteConfigField_frame:
  assumes "DeviceName p = []" "LiveModeAPIKey p = []" "LiveModePublishableKey p = []"
    "TestModeAPIKey p = []" "TestModePublishableKey p = []" "DisplayName p = []" "AccountID p = []"
    and "disk w (configFile (gviper w)) = Some old"
    and "AllSettings (gviper w) = old"
    and "fst (DeleteConfigField X p field w) = None"
  shows "disk (snd (DeleteConfigField X p field w))
           = (disk w)(configFile (gviper w) \<mapsto> old(GetConfigField p field := None)) \<and>
         secureLog (snd (DeleteConfigField X p field w)) = secureLog w \<and>
         keyring (snd (DeleteConfigField X p field w)) = keyring w"
proof (cases "removeKey X (gviper w) (GetConfigField p field)")
  case (Inl err)
  with assms(10) show ?thesis by (simp add: DeleteConfigField_def)
next
  case (Inr v)
  then have v: "v = viperNew\<lparr> config := old(GetConfigField p field := None) \<rparr>"
    using assms(9) by (auto simp: removeKey_def split: if_splits option.splits)
  have d: "DeleteConfigField X p field w = writeProfile X p (OwnViper v) w"
    using Inr by (simp add: DeleteConfigField_def)
  have ok: "fst (writeProfile X p (OwnViper v) w) = None"
    using assms(10) d by simp
  then have mp: "makePath X (configFile (gviper w)) = None"
    by (simp add: writeProfile_error split: option.splits)
  have f: "vfind v = old(GetConfigField p field := None)"
    unfolding v by (rule ext) simp
  show ?thesis
    unfolding d using ok mp f
    by (simp add: writeProfile_disk writeProfile_keyring writeProfile_trace secureLog_def
          setFields_nothing[OF assms(1-7)] removeLegacy_nothing[OF assms(4,5)] v)
qed

theorem DeleteConfigField_frame_witness:
  "fst (DeleteConfigField sampleExt (emptyProfile ''default'') DeviceNameName syncedWorld) = None \<and>
   (\<exists>content.
      disk (snd (DeleteConfigField sampleExt (emptyProfile ''default'') DeviceNameName syncedWorld))
        ''config.toml'' = Some content \<and>
      content ''default.device_name'' = None \<and>
      content ''default.account_id'' = Some ''acct_1'' \<and>
      content ''default.color'' = Some ''on'') \<and>
   secureLog (snd (DeleteConfigField sampleExt (emptyProfile ''default'') DeviceNameName
                     syncedWorld)) = []"
proof -
  let ?old = "[''default.device_name'' \<mapsto> ''laptop'', ''default.account_id'' \<mapsto> ''acct_1'',
               ''default.color'' \<mapsto> ''on'']"
  have h: "fst (DeleteConfigField sampleExt (emptyProfile ''default'') DeviceNameName syncedWorld)
             = None" by code_simp
  have e1: "GetConfigField (emptyProfile ''default'') DeviceNameName = ''default.device_name''"
    by code_simp
  have e4: "configFile (gviper syncedWorld) = ''config.toml''" by code_simp
  have e5: "secureLog syncedWorld = []" by code_simp
  have o: "disk syncedWorld (configFile (gviper syncedWorld)) = Some ?old"
    unfolding e4 by (simp add: syncedWorld_def)
  have a: "AllSettings (gviper syncedWorld) = ?old"
    by (rule ext)
       (simp add: AllSettings_def vfind_def realKey_def syncedWorld_def sampleViper_def)
  show ?thesis
    using DeleteConfigField_frame
            [of "emptyProfile ''default''" syncedWorld ?old sampleExt DeviceNameName, OF _ _ _ _ _ _ _ o a h]
      h
    unfolding e1 e4 e5 by (simp add: emptyProfile_def)
qed

text \<open>
  With a live-mode key in the profile, and a file that holds a field the backend has
  not loaded, the frame is broken: deleting \<open>device_name\<close> succeeds, calls the secure
  backend, adds \<open>live_mode_api_key\<close> to the file and drops \<open>account_id\<close> from it.
\<close>

theorem DeleteConfigField_counterexample:
  "fst (DeleteConfigField sampleExt liveProfile DeviceNameName staleWorld) = None \<and>
   secureLog (snd (DeleteConfigField sampleExt liveProfile DeviceNameName staleWorld))
     \<noteq> secureLog staleWorld \<and>
   (case disk staleWorld ''config.toml'' of
      None \<Rightarrow> False
    | Some content \<Rightarrow> content ''default.live_mode_api_key'' = None \<and>
                      content ''default.account_id'' = Some ''acct_1'') \<and>
   (case disk (snd (DeleteConfigField sampleExt liveProfile DeviceNameName staleWorld))
           ''config.toml'' of
      None \<Rightarrow> False
    | Some content \<Rightarrow> content ''default.live_mode_api_key'' = Some ''sk_live_********ijkl'' \<and>
                      content ''default.account_id'' = None)"
  by code_simp


subsection \<open>The getters\<close>

lemma Ext_config_toml: "Ext ''config.toml'' = ''.toml''"
  by code_simp

lemma toml_supported: "''toml'' \<in> set SupportedExts"
  by (simp add: SupportedExts_def)

lemma getConfigType_toml:
  "configFile v = ''config.toml'' \<Longrightarrow> configType v = [] \<Longrightarrow> getConfigType v = ''toml''"
  by (simp add: getConfigType_def Ext_config_toml)

text \<open>
  C3. A key that \<open>GetAPIKey\<close> returns has passed the validator, and whenever the
  validator rejects the value found, whether it is the environment override, the
  in-memory \<open>APIKey\<close>, the value read from the plaintext configuration (test mode) or
  the one retrieved from the secure backend (live mode), \<open>GetAPIKey\<close> returns the
  validator's error instead of the value.
\<close>

theorem GetAPIKey_validates:
  "(\<forall>key. fst (GetAPIKey X p livemode w) = Inr key \<longrightarrow> validAPIKey X key = None) \<and>
   (\<forall>err. getenv w ''STRIPE_API_KEY'' \<noteq> [] \<and>
          validAPIKey X (getenv w ''STRIPE_API_KEY'') = Some err \<longrightarrow>
          fst (GetAPIKey X p livemode w) = Inl err) \<and>
   (\<forall>err. getenv w ''STRIPE_API_KEY'' = [] \<and> APIKey p \<noteq> [] \<and>
          validAPIKey X (APIKey p) = Some err \<longrightarrow>
          fst (GetAPIKey X p livemode w) = Inl err) \<and>
   (\<forall>err. getenv w ''STRIPE_API_KEY'' = [] \<and> APIKey p = [] \<and> \<not> livemode \<and>
          fst (ReadInConfig (registerLegacyAliases p livemode w)) = None \<and>
          validAPIKey X (GetString (gviper (snd (ReadInConfig (registerLegacyAliases p livemode w))))
                           (GetConfigField p TestModeAPIKeyName)) = Some err \<longrightarrow>
          fst (GetAPIKey X p livemode w) = Inl err) \<and>
   (\<forall>err. getenv w ''STRIPE_API_KEY'' = [] \<and> APIKey p = [] \<and> livemode \<and>
          fst (ReadInConfig (registerLegacyAliases p livemode w)) = None \<and>
          validAPIKey X (fst (RetrieveLivemodeValue p LiveModeAPIKeyName
                                (snd (ReadInConfig (registerLegacyAliases p livemode w))))) = Some err \<longrightarrow>
          fst (GetAPIKey X p livemode w) = Inl err)"
  by (auto simp: GetAPIKey_def Let_def livemodeKeyField_def split: option.splits prod.splits if_splits)

theorem GetAPIKey_validates_witness:
  "fst (GetAPIKey sampleExt (emptyProfile ''default'') False (envWorld ''sk_test_env'')) = Inr ''sk_test_env'' \<and>
   validAPIKey sampleExt ''sk_test_env'' = None \<and>
   fst (GetAPIKey sampleExt (emptyProfile ''default'') False (envWorld ''bogus''))
     = Inl (ErrOther ''invalid API key'') \<and>
   fst (GetAPIKey sampleExt ((emptyProfile ''default'')\<lparr> APIKey := ''bogus'' \<rparr>) False sampleWorld)
     = Inl (ErrOther ''invalid API key'') \<and>
   fst (GetAPIKey sampleExt (emptyProfile ''default'') False (storedKeyWorld ''bogus'' ''sk_live_abc''))
     = Inl (ErrOther ''invalid API key'') \<and>
   fst (GetAPIKey sampleExt (emptyProfile ''default'') True (storedKeyWorld ''sk_test_abc'' ''bogus''))
     = Inl (ErrOther ''invalid API key'')"
proof -
  let ?p = "emptyProfile ''default''"
  let ?q = "(emptyProfile ''default'')\<lparr> APIKey := ''bogus'' \<rparr>"
  let ?e = "ErrOther ''invalid API key''"
  have a: "fst (GetAPIKey sampleExt ?p False (envWorld ''sk_test_env'')) = Inr ''sk_test_env''"
    by code_simp
  have b: "getenv (envWorld ''bogus'') ''STRIPE_API_KEY'' \<noteq> [] \<and>
           validAPIKey sampleExt (getenv (envWorld ''bogus'') ''STRIPE_API_KEY'') = Some ?e"
    by code_simp
  have c: "getenv sampleWorld ''STRIPE_API_KEY'' = [] \<and> APIKey ?q \<noteq> [] \<and>
           validAPIKey sampleExt (APIKey ?q) = Some ?e"
    by code_simp
  have d: "getenv (storedKeyWorld ''bogus'' ''sk_live_abc'') ''STRIPE_API_KEY'' = [] \<and>
           APIKey ?p = [] \<and> \<not> False \<and>
           fst (ReadInConfig (registerLegacyAliases ?p False (storedKeyWorld ''bogus'' ''sk_live_abc'')))
             = None \<and>
           validAPIKey sampleExt (GetString (gviper (snd (ReadInConfig (registerLegacyAliases ?p False
                (storedKeyWorld ''bogus'' ''sk_live_abc'')))))
              (GetConfigField ?p TestModeAPIKeyName)) = Some ?e"
    by code_simp
  have e: "getenv (storedKeyWorld ''sk_test_abc'' ''bogus'') ''STRIPE_API_KEY'' = [] \<and>
           APIKey ?p = [] \<and> True \<and>
           fst (ReadInConfig (registerLegacyAliases ?p True (storedKeyWorld ''sk_test_abc'' ''bogus'')))
             = None \<and>
           validAPIKey sampleExt (fst (RetrieveLivemodeValue ?p LiveModeAPIKeyName
              (snd (ReadInConfig (registerLegacyAliases ?p True
                 (storedKeyWorld ''sk_test_abc'' ''bogus''))))))  = Some ?e"
    by code_simp
  note t1 = GetAPIKey_validates [of sampleExt ?p False "envWorld ''sk_test_env''"]
  note t2 = GetAPIKey_validates [of sampleExt ?p False "envWorld ''bogus''"]
  note t3 = GetAPIKey_validates [of sampleExt ?q False sampleWorld]
  note t4 = GetAPIKey_validates [of sampleExt ?p False "storedKeyWorld ''bogus'' ''sk_live_abc''"]
  note t5 = GetAPIKey_validates [of sampleExt ?p True "storedKeyWorld ''sk_test_abc'' ''bogus''"]
  from t1 a have a': "validAPIKey sampleExt ''sk_test_env'' = None" by blast
  from t2 b have b': "fst (GetAPIKey sampleExt ?p False (envWorld ''bogus'')) = Inl ?e" by blast
  from t3 c have c': "fst (GetAPIKey sampleExt ?q False sampleWorld) = Inl ?e" by blast
  from t4 d have d': "fst (GetAPIKey sampleExt ?p False (storedKeyWorld ''bogus'' ''sk_live_abc'')) = Inl ?e"
    by blast
  from t5 e have e': "fst (GetAPIKey sampleExt ?p True (storedKeyWorld ''sk_test_abc'' ''bogus'')) = Inl ?e"
    by blast
  from a a' b' c' d' e' show ?thesis by simp
qed

text \<open>
  C2. In a state whose configuration holds only \<open>secret_key\<close> for the profile, with no
  override and no in-memory key, the first \<open>GetAPIKey(false)\<close> registers the alias from
  \<open>api_key\<close> to \<open>secret_key\<close> and then reads \<open>test_mode_api_key\<close>, which is neither set
  nor aliased: the validator gets the empty string, the legacy key is not returned, and
  a direct read of the canonical field yields the empty string. Only a second call, which
  finds \<open>api_key\<close> set through the alias and registers the alias from
  \<open>test_mode_api_key\<close> to \<open>api_key\<close>, returns the legacy key.
\<close>

theorem GetAPIKey_legacy_secret_key_first_read:
  "fst (GetAPIKey X (emptyProfile ''default'') False secretKeyWorld)
     = (case validAPIKey X [] of Some err \<Rightarrow> Inl err | None \<Rightarrow> Inr []) \<and>
   fst (GetAPIKey X (emptyProfile ''default'') False secretKeyWorld) \<noteq> Inr ''sk_test_legacy'' \<and>
   aliases (gviper (snd (GetAPIKey X (emptyProfile ''default'') False secretKeyWorld)))
     = [(''default.api_key'', ''default.secret_key'')] \<and>
   GetString (gviper (snd (GetAPIKey X (emptyProfile ''default'') False secretKeyWorld)))
     ''default.test_mode_api_key'' = [] \<and>
   fst (GetAPIKey sampleExt (emptyProfile ''default'') False
          (snd (GetAPIKey sampleExt (emptyProfile ''default'') False secretKeyWorld)))
     = Inr ''sk_test_legacy''"
proof -
  let ?p = "emptyProfile ''default''"
  have k: "GetConfigField ?p ''api_key'' = ''default.api_key''"
    "GetConfigField ?p ''secret_key'' = ''default.secret_key''"
    "GetConfigField ?p TestModeAPIKeyName = ''default.test_mode_api_key''"
    by code_simp+
  have a: "registerLegacyAliases ?p False secretKeyWorld
             = secretKeyWorld\<lparr> gviper := (gviper secretKeyWorld)
                 \<lparr> aliases := [(''default.api_key'', ''default.secret_key'')] \<rparr> \<rparr>"
    unfolding registerLegacyAliases_def RegisterAlias_def k
    by (simp add: IsSet_def vfind_def realKey_def RegisterAliasV_def secretKeyWorld_def)
  have r: "ReadInConfig (registerLegacyAliases ?p False secretKeyWorld)
             = (None, registerLegacyAliases ?p False secretKeyWorld)"
    unfolding a by (simp add: ReadInConfig_def secretKeyWorld_def getConfigType_toml toml_supported)
  have g: "GetString (gviper (registerLegacyAliases ?p False secretKeyWorld))
             ''default.test_mode_api_key'' = []"
    unfolding a by (simp add: GetString_def vfind_def realKey_def secretKeyWorld_def)
  have e: "getenv secretKeyWorld ''STRIPE_API_KEY'' = []" "APIKey ?p = []"
    by (simp_all add: secretKeyWorld_def emptyProfile_def)
  have one: "GetAPIKey X ?p False secretKeyWorld
     = (case validAPIKey X [] of
          Some err \<Rightarrow> (Inl err, registerLegacyAliases ?p False secretKeyWorld)
        | None \<Rightarrow> (Inr [], registerLegacyAliases ?p False secretKeyWorld))"
    by (simp add: GetAPIKey_def Let_def e r livemodeKeyField_def k g split: option.splits)
  have two: "fst (GetAPIKey sampleExt ?p False
          (snd (GetAPIKey sampleExt ?p False secretKeyWorld))) = Inr ''sk_test_legacy''"
    by code_simp
  have w: "snd (GetAPIKey X ?p False secretKeyWorld) = registerLegacyAliases ?p False secretKeyWorld"
    unfolding one by (simp split: option.splits)
  show ?thesis
    unfolding w using g two
    by (simp add: one a split: option.splits)
qed

text \<open>
  C4. \<open>GetDeviceName\<close> returns the environment override if it is not
  empty, else the in-memory \<open>DeviceName\<close> if it is not empty, else, when the
  configuration file can be read, the persisted field, which is the empty string when
  the field is not set. It fails, with \<open>ErrDeviceNameNotConfigured\<close>, exactly when both
  are empty and the configuration file cannot be read.
\<close>

theorem GetDeviceName_precedence:
  "(getenv w ''STRIPE_DEVICE_NAME'' \<noteq> [] \<longrightarrow>
      fst (GetDeviceName p w) = Inr (getenv w ''STRIPE_DEVICE_NAME'')) \<and>
   (getenv w ''STRIPE_DEVICE_NAME'' = [] \<and> DeviceName p \<noteq> [] \<longrightarrow>
      fst (GetDeviceName p w) = Inr (DeviceName p)) \<and>
   (getenv w ''STRIPE_DEVICE_NAME'' = [] \<and> DeviceName p = [] \<and> fst (ReadInConfig w) = None \<longrightarrow>
      fst (GetDeviceName p w)
        = Inr (GetString (gviper (snd (ReadInConfig w))) (GetConfigField p DeviceNameName))) \<and>
   (getenv w ''STRIPE_DEVICE_NAME'' = [] \<and> DeviceName p = [] \<and> fst (ReadInConfig w) \<noteq> None \<longrightarrow>
      fst (GetDeviceName p w) = Inl ErrDeviceNameNotConfigured) \<and>
   ((\<exists>err. fst (GetDeviceName p w) = Inl err) \<longleftrightarrow>
      getenv w ''STRIPE_DEVICE_NAME'' = [] \<and> DeviceName p = [] \<and> fst (ReadInConfig w) \<noteq> None)"
  by (auto simp: GetDeviceName_def split: option.splits prod.splits)

theorem GetDeviceName_precedence_witness:
  "fst (GetDeviceName (emptyProfile ''default'')
          (sampleWorld\<lparr> getenv := (\<lambda>name. if name = ''STRIPE_DEVICE_NAME'' then ''ci-box'' else []) \<rparr>))
     = Inr ''ci-box'' \<and>
   fst (GetDeviceName ((emptyProfile ''default'')\<lparr> DeviceName := ''desk'' \<rparr>) sampleWorld)
     = Inr ''desk'' \<and>
   fst (GetDeviceName (emptyProfile ''default'') sampleWorld) = Inr ''laptop'' \<and>
   fst (GetDeviceName (emptyProfile ''default'') (sampleWorld\<lparr> disk := Map.empty \<rparr>))
     = Inl ErrDeviceNameNotConfigured"
proof -
  let ?p = "emptyProfile ''default''"
  let ?q = "(emptyProfile ''default'')\<lparr> DeviceName := ''desk'' \<rparr>"
  let ?w1 = "sampleWorld\<lparr> getenv := (\<lambda>name. if name = ''STRIPE_DEVICE_NAME'' then ''ci-box'' else []) \<rparr>"
  let ?w4 = "sampleWorld\<lparr> disk := Map.empty \<rparr>"
  have a: "getenv ?w1 ''STRIPE_DEVICE_NAME'' \<noteq> []" "getenv ?w1 ''STRIPE_DEVICE_NAME'' = ''ci-box''"
    by code_simp+
  have b: "getenv sampleWorld ''STRIPE_DEVICE_NAME'' = [] \<and> DeviceName ?q \<noteq> []"
    "DeviceName ?q = ''desk''"
    by code_simp+
  have c: "getenv sampleWorld ''STRIPE_DEVICE_NAME'' = [] \<and> DeviceName ?p = [] \<and>
           fst (ReadInConfig sampleWorld) = None"
    "GetString (gviper (snd (ReadInConfig sampleWorld))) (GetConfigField ?p DeviceNameName) = ''laptop''"
    by code_simp+
  have d: "getenv ?w4 ''STRIPE_DEVICE_NAME'' = [] \<and> DeviceName ?p = [] \<and>
           fst (ReadInConfig ?w4) \<noteq> None"
    by code_simp
  from GetDeviceName_precedence [of ?w1 ?p] a
  have a': "fst (GetDeviceName ?p ?w1) = Inr ''ci-box''" by simp
  from GetDeviceName_precedence [of sampleWorld ?q] b
  have b': "fst (GetDeviceName ?q sampleWorld) = Inr ''desk''" by simp
  from GetDeviceName_precedence [of sampleWorld ?p] c
  have c': "fst (GetDeviceName ?p sampleWorld) = Inr ''laptop''" by simp
  from GetDeviceName_precedence [of ?w4 ?p] d
  have d': "fst (GetDeviceName ?p ?w4) = Inl ErrDeviceNameNotConfigured" by blast
  from a' b' c' d' show ?thesis by simp
qed

text \<open>
  A readable configuration without the field: no source holds a device name, and the
  result is the empty string, not an error.
\<close>

theorem GetDeviceName_counterexample:
  "getenv secretKeyWorld ''STRIPE_DEVICE_NAME'' = [] \<and>
   DeviceName (emptyProfile ''default'') = [] \<and>
   \<not> IsSet (gviper secretKeyWorld) (GetConfigField (emptyProfile ''default'') DeviceNameName) \<and>
   (case disk secretKeyWorld ''config.toml'' of
      None \<Rightarrow> False
    | Some content \<Rightarrow> content (GetConfigField (emptyProfile ''default'') DeviceNameName) = None) \<and>
   fst (GetDeviceName (emptyProfile ''default'') secretKeyWorld) = Inr []"
  by code_simp

text \<open>
  C5. With the flag \<open>color\<close> set to \<open>purple\<close>, \<open>GetColor\<close> returns \<open>purple\<close> without an
  error, for every profile; the same value persisted for the profile is rejected with
  the unsupported-value error.
\<close>

theorem GetColor_flag_not_checked:
  "GetColor p purpleFlagWorld = Inr ''purple'' \<and>
   GetColor (emptyProfile ''default'') purpleProfileWorld = Inl (ErrColorNotSupported ''purple'')"
proof
  have "GetString (gviper purpleFlagWorld) ''color'' = ''purple''" by code_simp
  then show "GetColor p purpleFlagWorld = Inr ''purple''"
    by (simp add: GetColor_def)
next
  show "GetColor (emptyProfile ''default'') purpleProfileWorld = Inl (ErrColorNotSupported ''purple'')"
    by code_simp
qed

subsection \<open>Writing, then reading\<close>

text \<open>
  C6. A profile that carries only a test-mode key is written to a clean configuration
  on the process-wide backend. The write succeeds and the file holds the key; but
  \<open>writeProfile\<close> has set the configuration type of the backend to \<open>filepath.Ext\<close> of the
  file, \<open>.toml\<close> with its dot, which is no supported type, so the \<open>ReadInConfig\<close> of the
  following \<open>GetAPIKey(false)\<close> fails and the key is reported as not configured. A
  backend that has not gone through \<open>writeProfile\<close> reads the key back from the same file.
  The secure backend is not called.
\<close>

theorem writeProfile_GetAPIKey_config_type:
  "fst (writeProfile sampleExt testOnlyProfile GlobalViper sampleWorld) = None \<and>
   (case disk (snd (writeProfile sampleExt testOnlyProfile GlobalViper sampleWorld)) ''config.toml'' of
      None \<Rightarrow> False
    | Some content \<Rightarrow> content ''default.test_mode_api_key'' = Some ''sk_test_abcdefghijkl'') \<and>
   Ext ''config.toml'' = ''.toml'' \<and>
   configType (gviper (snd (writeProfile sampleExt testOnlyProfile GlobalViper sampleWorld)))
     = ''.toml'' \<and>
   fst (ReadInConfig (snd (writeProfile sampleExt testOnlyProfile GlobalViper sampleWorld)))
     = Some (ErrUnsupportedConfig ''.toml'') \<and>
   fst (GetAPIKey sampleExt testOnlyProfile False
          (snd (writeProfile sampleExt testOnlyProfile GlobalViper sampleWorld)))
     = Inl ErrAPIKeyNotConfigured \<and>
   fst (GetAPIKey sampleExt testOnlyProfile False
          ((snd (writeProfile sampleExt testOnlyProfile GlobalViper sampleWorld))
             \<lparr> gviper := sampleViper \<rparr>))
     = Inr ''sk_test_abcdefghijkl'' \<and>
   secureLog (snd (GetAPIKey sampleExt testOnlyProfile False
          (snd (writeProfile sampleExt testOnlyProfile GlobalViper sampleWorld)))) = []"
  by code_simp


end
